theory Spec2Isabelle
  imports Complex_Main "HOL-Library.Char_ord" "HOL-Library.List_Lexorder"
    "HOL-Library.Option_ord" "HOL-Library.Product_Lexorder" "HOL-Library.Multiset"
begin

section \<open>Numeric cells\<close>

text \<open>
  A numeric cell of a pandas column is either a number or NaN (``missing'').  Numbers are
  modelled as exact rationals, so the rounding of binary floating point is abstracted away;
  \<open>None\<close> is NaN.  Arithmetic on cells propagates NaN, as numpy does.
\<close>

type_synonym num = "rat option"

definition isna :: "'a option \<Rightarrow> bool" where
  "isna x = (x = None)"

fun nsub :: "num \<Rightarrow> num \<Rightarrow> num" where
  "nsub (Some a) (Some b) = Some (a - b)"
| "nsub _ _ = None"

fun nmul :: "num \<Rightarrow> num \<Rightarrow> num" where
  "nmul (Some a) (Some b) = Some (a * b)"
| "nmul _ _ = None"

text \<open>
  Elementwise division of two float columns.  Division of a number by zero gives an
  infinity or NaN in numpy (with a warning, never an exception); both lie outside the
  rationals and are rendered here as \<open>None\<close>.
\<close>

fun ndiv :: "num \<Rightarrow> num \<Rightarrow> num" where
  "ndiv (Some a) (Some b) = (if b = 0 then None else Some (a / b))"
| "ndiv _ _ = None"

text \<open>\<open>np.where(cond, np.nan, x)\<close> on one element.\<close>

definition where_nan :: "bool \<Rightarrow> num \<Rightarrow> num" where
  "where_nan c x = (if c then None else x)"

section \<open>Column reductions and grouping\<close>

text \<open>The non-missing values of a column, in order.\<close>

primrec dropna :: "'a option list \<Rightarrow> 'a list" where
  "dropna [] = []"
| "dropna (x # xs) = (case x of None \<Rightarrow> dropna xs | Some v \<Rightarrow> v # dropna xs)"

text \<open>
  The pandas reductions \<open>sum\<close> and \<open>mean\<close> and numpy's \<open>nansum\<close> skip NaN.  A sum over no
  values is 0; a mean over no values is NaN.  \<open>count\<close> is the number of non-missing
  values and \<open>nunique\<close> the number of distinct non-missing values.
\<close>

definition nansum :: "num list \<Rightarrow> num" where
  "nansum xs = Some (sum_list (dropna xs))"

definition nanmean :: "num list \<Rightarrow> num" where
  "nanmean xs = (let ys = dropna xs in
                 if ys = [] then None else Some (sum_list ys / of_nat (length ys)))"

definition count_agg :: "'a option list \<Rightarrow> nat" where
  "count_agg xs = length (dropna xs)"

definition nunique :: "'a option list \<Rightarrow> nat" where
  "nunique xs = length (remdups (dropna xs))"

text \<open>pandas sorts group keys ascending with NaN after every value.\<close>

definition nan_last :: "'a option \<Rightarrow> bool \<times> 'a option" where
  "nan_last x = (x = None, x)"

text \<open>
  \<open>df.groupby(cols, dropna=False)\<close>: one group per distinct key, the keys in sorted order
  (\<open>ord\<close> maps a key to its sort position), each group holding its rows in table order.
\<close>

definition groupby :: "('k \<Rightarrow> 'o::linorder) \<Rightarrow> ('r \<Rightarrow> 'k) \<Rightarrow> 'r list \<Rightarrow> ('k \<times> 'r list) list" where
  "groupby ord key df =
     map (\<lambda>k. (k, filter (\<lambda>r. key r = k) df)) (sort_key ord (remdups (map key df)))"

section \<open>Rendering integers\<close>

text \<open>Python's \<open>str\<close> of an integer: decimal digits, a leading minus sign when negative.\<close>

definition digit :: "nat \<Rightarrow> char" where
  "digit n = char_of (48 + n)"

fun str_nat :: "nat \<Rightarrow> string" where
  "str_nat n = (if n < 10 then [digit n] else str_nat (n div 10) @ [digit (n mod 10)])"

declare str_nat.simps [simp del]

definition py_str_int :: "int \<Rightarrow> string" where
  "py_str_int i = (if i < 0 then CHR ''-'' # str_nat (nat (- i)) else str_nat (nat i))"

text \<open>numpy's \<open>round\<close> to an integer: to the nearest, a tie to the even neighbour.\<close>

definition round_half_even :: "rat \<Rightarrow> int" where
  "round_half_even x =
     (let f = \<lfloor>x\<rfloor>; d = x - of_int f in
      if d < 1 / 2 then f else if d > 1 / 2 then f + 1 else if even f then f else f + 1)"

section \<open>Weekly model generator (\<open>weekly_model_generator_v5.py\<close>, \<open>generate_weekly_metrics.py\<close>)\<close>

text \<open>
  A row of \<open>invoice_level_index.csv\<close> as \<open>pd.read_csv\<close> returns it: an empty or \<open>nan\<close> cell
  is NaN.  The field \<open>inv_X\<close> is the column the scripts call \<open>X\<close> (\<open>Payment Amount*\<close>,
  \<open>Denial %\<close>, \<open>NRV Gap (%)\<close>, \<open>% of Remaining Charges\<close>, ...).  Columns that are only
  summed or averaged into columns no property below reads are left out.
\<close>

record inv_row =
  inv_Year :: num
  inv_Week :: num
  inv_Payer :: "string option"
  inv_Group_EM :: "string option"
  inv_Group_EM2 :: "string option"
  inv_Benchmark_Key :: "string option"
  inv_Invoice_Number :: "string option"
  inv_Charge_Amount :: num
  inv_Payment_Amount :: num
  inv_Zero_Balance_Collection_Rate :: num
  inv_Collection_Rate :: num
  inv_Denial_Percent :: num
  inv_NRV_Gap_Percent :: num
  inv_Remaining_Charges_Percent :: num
  inv_Benchmark_Zero_Balance_Collection_Rate :: num
  inv_Benchmark_Collection_Rate :: num
  inv_Benchmark_Invoice_Count :: num
  inv_Expected_Amount_85_EM_invoice_level :: num

text \<open>
  A row of the \<open>weekly\<close> table.  The eight columns of \<open>rate_cols\<close> have type \<open>'p\<close>: numeric
  cells until Step 8, strings after it.
\<close>

record 'p wk_row =
  Year :: num
  Week :: num
  Payer :: "string option"
  Group_EM :: "string option"
  Group_EM2 :: "string option"
  Benchmark_Key :: "string option"
  Visit_Count :: nat
  Group_Size :: nat
  Charge_Amount :: num
  Payment_Amount :: num
  Zero_Balance_Collection_Rate :: 'p
  Collection_Rate :: 'p
  Denial_Percent :: 'p
  NRV_Gap_Percent :: 'p
  Remaining_Charges_Percent :: 'p
  Benchmark_Zero_Balance_Collection_Rate :: 'p
  Benchmark_Collection_Rate :: 'p
  Benchmark_Invoice_Count :: num
  Expected_Amount_85_EM_invoice_level :: num
  Expected_Payment :: num
  Revenue_Variance :: num
  Revenue_Variance_Pct :: 'p
  Volume_Gap :: num
  Actual_Rate_per_Visit :: num
  Rate_Variance :: num

type_synonym wk_key =
  "num \<times> num \<times> string option \<times> string option \<times> string option \<times> string option"

definition inv_key :: "inv_row \<Rightarrow> wk_key" where
  "inv_key r = (inv_Year r, inv_Week r, inv_Payer r, inv_Group_EM r, inv_Group_EM2 r,
                inv_Benchmark_Key r)"

definition wk_key :: "'p wk_row \<Rightarrow> wk_key" where
  "wk_key w = (Year w, Week w, Payer w, Group_EM w, Group_EM2 w, Benchmark_Key w)"

definition wk_ord :: "wk_key \<Rightarrow>
    (bool \<times> num) \<times> (bool \<times> num) \<times> (bool \<times> string option) \<times> (bool \<times> string option) \<times>
    (bool \<times> string option) \<times> (bool \<times> string option)" where
  "wk_ord k = (case k of (y, w, p, g, g2, b) \<Rightarrow>
     (nan_last y, nan_last w, nan_last p, nan_last g, nan_last g2, nan_last b))"

text \<open>
  Steps 2 to 6 for one group \<open>g\<close> with key \<open>k\<close>.  Step 3 merges, on \<open>Benchmark_Key\<close>, the
  benchmark columns of the first row of \<open>df\<close> carrying that key
  (\<open>drop_duplicates(subset=['Benchmark_Key'])\<close> keeps the first).
  \<^verbatim>\<open>
  weekly['Expected_Payment'] = weekly['Expected_Amount_85_EM_invoice_level'] * weekly['Visit_Count']
  weekly['Revenue_Variance'] = weekly['Payment_Amount'] - weekly['Expected_Payment']
  weekly['Revenue_Variance_Pct'] = np.where(weekly['Expected_Payment'] == 0, np.nan,
      weekly['Revenue_Variance'] / weekly['Expected_Payment'])
  weekly['Volume_Gap'] = weekly['Group_Size'] - weekly['Benchmark_Invoice_Count']
  weekly['Actual_Rate_per_Visit'] = weekly['Payment_Amount'] / weekly['Visit_Count']
  weekly['Rate_Variance'] = weekly['Actual_Rate_per_Visit'] - weekly['Expected_Amount_85_EM_invoice_level']
  \<close>
\<close>

definition bm_lookup :: "inv_row list \<Rightarrow> string option \<Rightarrow> (inv_row \<Rightarrow> num) \<Rightarrow> num" where
  "bm_lookup df b col =
     (case find (\<lambda>r. inv_Benchmark_Key r = b) df of None \<Rightarrow> None | Some r \<Rightarrow> col r)"

definition weekly_row :: "inv_row list \<Rightarrow> wk_key \<Rightarrow> inv_row list \<Rightarrow> num wk_row" where
  "weekly_row df k g = (case k of (y, w, p, ge, ge2, b) \<Rightarrow>
     (let visit_count = nunique (map inv_Invoice_Number g);
          group_size = count_agg (map inv_Invoice_Number g);
          payment_amount = nansum (map inv_Payment_Amount g);
          benchmark_invoice_count = bm_lookup df b inv_Benchmark_Invoice_Count;
          expected_85 = bm_lookup df b inv_Expected_Amount_85_EM_invoice_level;
          expected_payment = nmul expected_85 (Some (of_nat visit_count));
          revenue_variance = nsub payment_amount expected_payment;
          actual_rate = ndiv payment_amount (Some (of_nat visit_count))
      in \<lparr> Year = y, Week = w, Payer = p, Group_EM = ge, Group_EM2 = ge2, Benchmark_Key = b,
           Visit_Count = visit_count,
           Group_Size = group_size,
           Charge_Amount = nansum (map inv_Charge_Amount g),
           Payment_Amount = payment_amount,
           Zero_Balance_Collection_Rate = nanmean (map inv_Zero_Balance_Collection_Rate g),
           Collection_Rate = nanmean (map inv_Collection_Rate g),
           Denial_Percent = nanmean (map inv_Denial_Percent g),
           NRV_Gap_Percent = nanmean (map inv_NRV_Gap_Percent g),
           Remaining_Charges_Percent = nanmean (map inv_Remaining_Charges_Percent g),
           Benchmark_Zero_Balance_Collection_Rate =
             bm_lookup df b inv_Benchmark_Zero_Balance_Collection_Rate,
           Benchmark_Collection_Rate = bm_lookup df b inv_Benchmark_Collection_Rate,
           Benchmark_Invoice_Count = benchmark_invoice_count,
           Expected_Amount_85_EM_invoice_level = expected_85,
           Expected_Payment = expected_payment,
           Revenue_Variance = revenue_variance,
           Revenue_Variance_Pct =
             where_nan (expected_payment = Some 0) (ndiv revenue_variance expected_payment),
           Volume_Gap = nsub (Some (of_nat group_size)) benchmark_invoice_count,
           Actual_Rate_per_Visit = actual_rate,
           Rate_Variance = nsub actual_rate expected_85 \<rparr>))"

definition weekly :: "inv_row list \<Rightarrow> num wk_row list" where
  "weekly df = map (\<lambda>(k, g). weekly_row df k g) (groupby wk_ord inv_key df)"

text \<open>
  Step 8, on one cell and on the table.
  \<^verbatim>\<open>
  for col in rate_cols:
      if col in weekly.columns:
          weekly[col] = (weekly[col].astype(float).fillna(0) * 100
                        ).round().astype('Int64').astype(str) + '%'
  \<close>
  All eight columns of \<open>rate_cols\<close> are present in \<open>weekly\<close> at this point.
\<close>

definition fillna :: "rat \<Rightarrow> num \<Rightarrow> rat" where
  "fillna d x = (case x of None \<Rightarrow> d | Some v \<Rightarrow> v)"

definition format_percent :: "num \<Rightarrow> string" where
  "format_percent x = py_str_int (round_half_even (fillna 0 x * 100)) @ ''%''"

definition rate_cols :: "'p wk_row \<Rightarrow> 'p list" where
  "rate_cols w = [Zero_Balance_Collection_Rate w, Collection_Rate w, Denial_Percent w,
                  NRV_Gap_Percent w, Remaining_Charges_Percent w,
                  Benchmark_Zero_Balance_Collection_Rate w, Benchmark_Collection_Rate w,
                  Revenue_Variance_Pct w]"

definition format_row :: "num wk_row \<Rightarrow> string wk_row" where
  "format_row w =
     \<lparr> Year = Year w, Week = Week w, Payer = Payer w, Group_EM = Group_EM w,
       Group_EM2 = Group_EM2 w, Benchmark_Key = Benchmark_Key w,
       Visit_Count = Visit_Count w, Group_Size = Group_Size w,
       Charge_Amount = Charge_Amount w, Payment_Amount = Payment_Amount w,
       Zero_Balance_Collection_Rate = format_percent (Zero_Balance_Collection_Rate w),
       Collection_Rate = format_percent (Collection_Rate w),
       Denial_Percent = format_percent (Denial_Percent w),
       NRV_Gap_Percent = format_percent (NRV_Gap_Percent w),
       Remaining_Charges_Percent = format_percent (Remaining_Charges_Percent w),
       Benchmark_Zero_Balance_Collection_Rate =
         format_percent (Benchmark_Zero_Balance_Collection_Rate w),
       Benchmark_Collection_Rate = format_percent (Benchmark_Collection_Rate w),
       Benchmark_Invoice_Count = Benchmark_Invoice_Count w,
       Expected_Amount_85_EM_invoice_level = Expected_Amount_85_EM_invoice_level w,
       Expected_Payment = Expected_Payment w,
       Revenue_Variance = Revenue_Variance w,
       Revenue_Variance_Pct = format_percent (Revenue_Variance_Pct w),
       Volume_Gap = Volume_Gap w,
       Actual_Rate_per_Visit = Actual_Rate_per_Visit w,
       Rate_Variance = Rate_Variance w \<rparr>"

definition weekly_export :: "inv_row list \<Rightarrow> string wk_row list" where
  "weekly_export df = map format_row (weekly df)"

section \<open>Rate drivers (\<open>CPT tracing code.py\<close>)\<close>










section \<open>Performance label (\<open>revenue_performance_model.py\<close>)\<close>

text \<open>
  \<^verbatim>\<open>
  def classify_performance(actual, expected):
      if pd.isna(actual) or pd.isna(expected) or expected == 0:
          return "No Data"
      diff_pct = (actual - expected) / expected
      if diff_pct > 0.05:
          return "Over Performing"
      elif diff_pct < -0.05:
          return "Under Performing"
      else:
          return "Average Performance"
  \<close>
\<close>

definition classify_performance :: "num \<Rightarrow> num \<Rightarrow> string" where
  "classify_performance actual expected =
     (if isna actual \<or> isna expected \<or> expected = Some 0 then ''No Data''
      else (let diff_pct = (the actual - the expected) / the expected in
            if diff_pct > 5 / 100 then ''Over Performing''
            else if diff_pct < - (5 / 100) then ''Under Performing''
            else ''Average Performance''))"

section \<open>Properties\<close>

lemma classify_performance_present:
  "y \<noteq> 0 \<Longrightarrow> d = (x - y) / y \<Longrightarrow>
   classify_performance (Some x) (Some y) =
     (if d > 5 / 100 then ''Over Performing''
      else if d < - (5 / 100) then ''Under Performing''
      else ''Average Performance'')"
  unfolding classify_performance_def isna_def Let_def
  by (simp only: option.sel option.simps if_False simp_thms)

text \<open>
  C6.  The classifier returns exactly one of four labels.  It returns ``No Data'' exactly
  when the actual or the expected value is missing or the expected value is zero.  On two
  present values with a nonzero expected value it returns ``Over Performing'' exactly when
  (actual - expected) / expected exceeds 0.05, ``Under Performing'' exactly when that ratio
  is below -0.05, and ``Average Performance'' exactly when the ratio lies between -0.05 and
  0.05, both ends included.
\<close>

theorem classify_performance_labels:
  "classify_performance a e \<in>
     {''No Data'', ''Over Performing'', ''Under Performing'', ''Average Performance''}
   \<and> (classify_performance a e = ''No Data'' \<longleftrightarrow> a = None \<or> e = None \<or> e = Some 0)
   \<and> (\<forall>x y. a = Some x \<and> e = Some y \<and> y \<noteq> 0 \<longrightarrow>
        (classify_performance a e = ''Over Performing'' \<longleftrightarrow> (x - y) / y > 5 / 100)
      \<and> (classify_performance a e = ''Under Performing'' \<longleftrightarrow> (x - y) / y < - (5 / 100))
      \<and> (classify_performance a e = ''Average Performance'' \<longleftrightarrow>
            - (5 / 100) \<le> (x - y) / y \<and> (x - y) / y \<le> 5 / 100))"
proof (cases "a = None \<or> e = None \<or> e = Some 0")
  case True
  then have "classify_performance a e = ''No Data''"
    by (auto simp: classify_performance_def isna_def)
  with True show ?thesis by auto
next
  case False
  then obtain x y where xy: "a = Some x" "e = Some y" "y \<noteq> 0" by auto
  define d where "d = (x - y) / y"
  have eq: "classify_performance a e =
     (if d > 5 / 100 then ''Over Performing''
      else if d < - (5 / 100) then ''Under Performing''
      else ''Average Performance'')"
    using xy classify_performance_present [of y d x] d_def by simp
  have "(classify_performance a e = ''Over Performing'' \<longleftrightarrow> d > 5 / 100)
      \<and> (classify_performance a e = ''Under Performing'' \<longleftrightarrow> d < - (5 / 100))
      \<and> (classify_performance a e = ''Average Performance'' \<longleftrightarrow> - (5 / 100) \<le> d \<and> d \<le> 5 / 100)
      \<and> classify_performance a e \<noteq> ''No Data''
      \<and> classify_performance a e \<in> {''Over Performing'', ''Under Performing'', ''Average Performance''}"
    unfolding eq by auto
  with xy False show ?thesis
    unfolding d_def by (simp only: option.inject) blast
qed

theorem classify_performance_labels_witness:
  "classify_performance (Some 105) (Some 100) = ''Average Performance''
   \<and> classify_performance (Some 106) (Some 100) = ''Over Performing''
   \<and> classify_performance (Some 95) (Some 100) = ''Average Performance''
   \<and> classify_performance (Some 94) (Some 100) = ''Under Performing''
   \<and> classify_performance (Some 94) (Some 0) = ''No Data''
   \<and> classify_performance None (Some 100) = ''No Data''"
  using classify_performance_labels [of "Some 105" "Some 100"]
        classify_performance_labels [of "Some 106" "Some 100"]
        classify_performance_labels [of "Some 95" "Some 100"]
        classify_performance_labels [of "Some 94" "Some 100"]
        classify_performance_labels [of "Some 94" "Some 0"]
        classify_performance_labels [of None "Some 100"]
  by simp

lemma set_dropna: "set (dropna xs) = {v. Some v \<in> set xs}"
  by (induction xs) (auto split: option.splits)

lemma length_dropna: "length (dropna xs) = length (filter (\<lambda>x. x \<noteq> None) xs)"
  by (induction xs) (auto split: option.splits)

lemma nunique_card: "nunique xs = card {v. Some v \<in> set xs}"
  by (simp add: nunique_def length_remdups_card_conv set_dropna)

lemma groupby_set:
  "set (groupby ord key df) = (\<lambda>k. (k, filter (\<lambda>r. key r = k) df)) ` key ` set df"
  by (simp add: groupby_def)

lemma groupby_keys: "map fst (groupby ord key df) = sort_key ord (remdups (map key df))"
  by (simp add: groupby_def comp_def)

lemma groupby_distinct: "distinct (map fst (groupby ord key df))"
  by (simp add: groupby_keys)

lemma wk_key_weekly_row: "wk_key (weekly_row df k g) = k"
  by (cases k) (simp add: weekly_row_def wk_key_def Let_def)

lemma weekly_set:
  "w \<in> set (weekly df) \<Longrightarrow>
   wk_key w \<in> inv_key ` set df \<and> w = weekly_row df (wk_key w) (filter (\<lambda>r. inv_key r = wk_key w) df)"
  by (auto simp: weekly_def groupby_set wk_key_weekly_row)

text \<open>
  C5.  In every row of the weekly aggregation, \<open>Visit_Count\<close> is the number of distinct
  (non-missing) invoice numbers among the detail rows of that group, whereas \<open>Group_Size\<close>
  counts the detail rows that carry an invoice number: an invoice with several procedure
  lines in the group counts once in \<open>Visit_Count\<close>.
\<close>

theorem weekly_Visit_Count:
  "w \<in> set (weekly df) \<Longrightarrow>
     Visit_Count w = card {i. \<exists>r \<in> set df. inv_key r = wk_key w \<and> inv_Invoice_Number r = Some i}
   \<and> Group_Size w = length (filter (\<lambda>r. inv_key r = wk_key w \<and> inv_Invoice_Number r \<noteq> None) df)
   \<and> Visit_Count w \<le> Group_Size w"
proof -
  assume "w \<in> set (weekly df)"
  then have w: "w = weekly_row df (wk_key w) (filter (\<lambda>r. inv_key r = wk_key w) df)"
    using weekly_set by blast
  define g where "g = filter (\<lambda>r. inv_key r = wk_key w) df"
  have vc: "Visit_Count w = nunique (map inv_Invoice_Number g)"
    by (subst w) (cases "wk_key w", simp add: weekly_row_def Let_def g_def)
  have gs: "Group_Size w = count_agg (map inv_Invoice_Number g)"
    by (subst w) (cases "wk_key w", simp add: weekly_row_def Let_def g_def)
  have s: "{v. Some v \<in> set (map inv_Invoice_Number g)} =
        {i. \<exists>r \<in> set df. inv_key r = wk_key w \<and> inv_Invoice_Number r = Some i}"
    by (auto simp: g_def image_iff)
  have l: "length (filter (\<lambda>x. x \<noteq> None) (map inv_Invoice_Number g)) =
       length (filter (\<lambda>r. inv_key r = wk_key w \<and> inv_Invoice_Number r \<noteq> None) df)"
    by (simp add: g_def filter_map comp_def conj_commute)
  have le: "nunique xs \<le> count_agg xs" for xs :: "string option list"
    by (simp add: nunique_def count_agg_def)
  show ?thesis
    using vc gs s l le [of "map inv_Invoice_Number g"]
    by (simp add: nunique_card count_agg_def length_dropna)
qed

lemma digit_vals:
  "digit 0 = CHR ''0''" "digit 1 = CHR ''1''" "digit 2 = CHR ''2''" "digit 3 = CHR ''3''"
  "digit 4 = CHR ''4''" "digit 5 = CHR ''5''" "digit 6 = CHR ''6''" "digit 7 = CHR ''7''"
  "digit 8 = CHR ''8''" "digit 9 = CHR ''9''" "digit (Suc 0) = CHR ''1''"
  unfolding digit_def by code_simp+

lemma digit_in: "n < 10 \<Longrightarrow> digit n \<in> set ''0123456789''"
proof -
  assume "n < 10"
  then have "n \<in> {0,1,2,3,4,5,6,7,8,9}" by auto
  then show ?thesis by (elim insertE emptyE) (simp_all add: digit_vals)
qed

lemma round_half_even_near: "\<bar>of_int (round_half_even x) - x\<bar> \<le> 1 / 2"
proof -
  define f where "f = \<lfloor>x\<rfloor>"
  define d where "d = x - of_int f"
  have d: "0 \<le> d" "d < 1" unfolding d_def f_def by linarith+
  have x: "x = of_int f + d" by (simp add: d_def)
  have r: "round_half_even x =
     (if d < 1 / 2 then f else if d > 1 / 2 then f + 1 else if even f then f else f + 1)"
    unfolding round_half_even_def Let_def f_def [symmetric] d_def [symmetric] ..
  show ?thesis unfolding r using d x by (auto simp: abs_if)
qed

lemma str_nat_digits: "set (str_nat n) \<subseteq> set ''0123456789''"
proof (induction n rule: str_nat.induct)
  case (1 n)
  show ?case
  proof (cases "n < 10")
    case True
    then show ?thesis using digit_in [of n] by (subst str_nat.simps) simp
  next
    case False
    have "n mod 10 < 10" by simp
    from digit_in [OF this] 1 [OF False] False show ?thesis
      by (subst str_nat.simps) simp
  qed
qed

lemma py_str_int_chars: "set (py_str_int i) \<subseteq> set ''-0123456789''"
proof -
  define D where "D = set ''0123456789''"
  have sub: "set (str_nat m) \<subseteq> D" for m
    unfolding D_def by (rule str_nat_digits)
  have e: "set ''-0123456789'' = insert (CHR ''-'') D"
    unfolding D_def by simp
  show ?thesis
    unfolding e py_str_int_def using sub [of "nat i"] sub [of "nat (- i)"] by auto
qed

lemma rate_cols_format_row: "rate_cols (format_row w) = map format_percent (rate_cols w)"
  by (simp add: rate_cols_def format_row_def)

lemma format_percent_zero: "format_percent None = ''0%''" "format_percent (Some 0) = ''0%''"
  by code_simp+

lemma format_percent_chars: "set (format_percent x) \<subseteq> set ''-0123456789%''"
proof -
  define E where "E = set ''-0123456789''"
  have sub: "set (py_str_int m) \<subseteq> E" for m
    unfolding E_def by (rule py_str_int_chars)
  have e: "set ''-0123456789%'' = insert (CHR ''%'') E"
    unfolding E_def by auto
  show ?thesis
    unfolding e format_percent_def using sub [of "round_half_even (fillna 0 x * 100)"] by auto
qed

lemma format_percent_near:
  "\<exists>n. format_percent x = py_str_int n @ ''%'' \<and> \<bar>of_int n - fillna 0 x * 100\<bar> \<le> 1 / 2"
  unfolding format_percent_def using round_half_even_near [of "fillna 0 x * 100"] by blast

text \<open>
  C10.  The export step renders each of the eight columns of \<open>rate_cols\<close> with
  \<open>format_percent\<close>: the decimal string of the integer nearest to 100 times the value,
  followed by a percent sign.  A missing value is rendered as \<open>0%\<close>, exactly as a true zero
  is, so the two cannot be told apart in the exported table.
\<close>

theorem weekly_export_rate_cols:
  "map rate_cols (weekly_export df) = map (map format_percent \<circ> rate_cols) (weekly df)
   \<and> (\<exists>n. format_percent x = py_str_int n @ ''%'' \<and> \<bar>of_int n - fillna 0 x * 100\<bar> \<le> 1 / 2)
   \<and> set (format_percent x) \<subseteq> set ''-0123456789%''
   \<and> last (format_percent x) = CHR ''%''
   \<and> format_percent None = ''0%''
   \<and> format_percent None = format_percent (Some 0)"
proof (intro conjI)
  show "map rate_cols (weekly_export df) = map (map format_percent \<circ> rate_cols) (weekly df)"
    by (simp add: weekly_export_def rate_cols_format_row comp_def)
  show "\<exists>n. format_percent x = py_str_int n @ ''%'' \<and> \<bar>of_int n - fillna 0 x * 100\<bar> \<le> 1 / 2"
    by (rule format_percent_near)
  show "set (format_percent x) \<subseteq> set ''-0123456789%''"
    by (rule format_percent_chars)
  show "last (format_percent x) = CHR ''%''"
    by (simp add: format_percent_def)
  show "format_percent None = ''0%''"
    by (rule format_percent_zero)
  show "format_percent None = format_percent (Some 0)"
    by (simp only: format_percent_zero)
qed

theorem weekly_Visit_Count_witness:
  "let r = \<lparr> inv_Year = Some 2024, inv_Week = Some 7, inv_Payer = Some ''Aetna'',
               inv_Group_EM = Some ''New E/M Code'', inv_Group_EM2 = Some ''Layer2'',
               inv_Benchmark_Key = Some ''K'', inv_Invoice_Number = Some ''A'',
               inv_Charge_Amount = Some 10, inv_Payment_Amount = Some 5,
               inv_Zero_Balance_Collection_Rate = None, inv_Collection_Rate = None,
               inv_Denial_Percent = None, inv_NRV_Gap_Percent = None,
               inv_Remaining_Charges_Percent = None,
               inv_Benchmark_Zero_Balance_Collection_Rate = None,
               inv_Benchmark_Collection_Rate = None, inv_Benchmark_Invoice_Count = None,
               inv_Expected_Amount_85_EM_invoice_level = Some 4 \<rparr>;
       df = [r, r, r\<lparr>inv_Invoice_Number := Some ''B''\<rparr>, r, r\<lparr>inv_Invoice_Number := None\<rparr>];
       w = hd (weekly df)
   in w \<in> set (weekly df) \<and> Visit_Count w = 2 \<and> Group_Size w = 4
      \<and> card {i. \<exists>r \<in> set df. inv_key r = wk_key w \<and> inv_Invoice_Number r = Some i} = 2"
proof -
  define r where "r = \<lparr> inv_Year = Some 2024, inv_Week = Some 7, inv_Payer = Some ''Aetna'',
               inv_Group_EM = Some ''New E/M Code'', inv_Group_EM2 = Some ''Layer2'',
               inv_Benchmark_Key = Some ''K'', inv_Invoice_Number = Some ''A'',
               inv_Charge_Amount = Some 10, inv_Payment_Amount = Some 5,
               inv_Zero_Balance_Collection_Rate = None, inv_Collection_Rate = None,
               inv_Denial_Percent = None, inv_NRV_Gap_Percent = None,
               inv_Remaining_Charges_Percent = None,
               inv_Benchmark_Zero_Balance_Collection_Rate = None,
               inv_Benchmark_Collection_Rate = None, inv_Benchmark_Invoice_Count = None,
               inv_Expected_Amount_85_EM_invoice_level = Some 4 \<rparr>"
  define df where "df = [r, r, r\<lparr>inv_Invoice_Number := Some ''B''\<rparr>, r, r\<lparr>inv_Invoice_Number := None\<rparr>]"
  define k where "k = inv_key r"
  have keys: "map inv_key df = [k, k, k, k, k]"
    by (simp add: df_def k_def inv_key_def)
  have wk: "weekly df = [weekly_row df k df]"
    by (simp add: weekly_def groupby_def keys) (simp add: df_def k_def inv_key_def)
  have mem: "hd (weekly df) \<in> set (weekly df)" by (simp add: wk)
  have vc: "Visit_Count (hd (weekly df)) = 2"
    by (simp add: wk k_def inv_key_def weekly_row_def Let_def nunique_def) (simp add: df_def r_def)
  have gs: "Group_Size (hd (weekly df)) = 4"
    by (simp add: wk k_def inv_key_def weekly_row_def Let_def count_agg_def) (simp add: df_def r_def)
  from weekly_Visit_Count [OF mem] vc gs mem show ?thesis
    unfolding Let_def df_def [symmetric] r_def [symmetric] by simp
qed



theorem weekly_export_rate_cols_witness:
  "format_percent (Some (1 / 8)) = ''12%'' \<and> format_percent (Some (- 3 / 100)) = ''-3%''
   \<and> format_percent None = ''0%'' \<and> format_percent (Some 0) = ''0%''
   \<and> map rate_cols (weekly_export []) = []"
proof (intro conjI)
  show "format_percent (Some (1 / 8)) = ''12%''"
    by code_simp
  show "format_percent (Some (- 3 / 100)) = ''-3%''"
    by code_simp
  show "format_percent None = ''0%''"
    using weekly_export_rate_cols [of "[]" None] by (elim conjE)
  then show "format_percent (Some 0) = ''0%''"
    using weekly_export_rate_cols [of "[]" None] by (elim conjE) (simp only:)
  have w: "weekly [] = []"
    by (simp add: weekly_def groupby_def)
  show "map rate_cols (weekly_export []) = []"
    using weekly_export_rate_cols [of "[]" None, THEN conjunct1] by (simp only: w list.map)
qed


subsection \<open>Rate drivers\<close>
















end
